theory Spec2Isabelle
  imports Main "HOL-Library.Char_ord" "HOL-Library.List_Lexorder" "HOL-Library.Product_Lexorder"
    "HOL-Library.Multiset"
begin

section \<open>Canonical transactions\<close>

text \<open>
  The dashboard (src/app.py) reads a bank export into a pandas DataFrame and computes
  every figure it shows from a filtered sub-selection of that table. This section models
  the table the aggregation functions read, row by row: one record per transaction with
  the columns those functions use. Amounts and balances are whole currency units and are
  modelled as integers. A blank spreadsheet cell is pandas' NaN; for the two text columns
  the aggregation functions group or compare on, it is \<open>None\<close>.
\<close>

record datetime =
  year :: nat
  month :: nat
  day :: nat
  hour :: nat
  minute :: nat
  second :: nat

text \<open>Timestamps are ordered chronologically: field by field, most significant first.\<close>

definition stamp_key :: "datetime \<Rightarrow> nat \<times> nat \<times> nat \<times> nat \<times> nat \<times> nat" where
  "stamp_key d = (year d, month d, day d, hour d, minute d, second d)"

record txn =
  Date :: datetime
  Remarks :: "string option"
  Transaction_Type :: "string option"
  Bank_Name :: "string option"
  Account_Number :: int
  Transaction_Amount :: int
  Balance :: int

text \<open>
  A DataFrame as the aggregation functions see it: its rows, and the \<open>Hour\<close> column,
  which the canonical table does not have (\<open>None\<close>) until \<open>make_heatmap\<close> assigns it.
\<close>

record frame =
  rows :: "txn list"
  Hour :: "nat list option"

definition empty :: "frame \<Rightarrow> bool" where
  "empty df \<longleftrightarrow> rows df = []"

text \<open>\<open>df[mask]\<close>: a new frame holding the rows the mask selects.\<close>

definition select :: "(txn \<Rightarrow> bool) \<Rightarrow> frame \<Rightarrow> frame" where
  "select p df =
     \<lparr>rows = filter p (rows df),
      Hour = map_option (\<lambda>hs. map snd (filter (\<lambda>(r, h). p r) (zip (rows df) hs))) (Hour df)\<rparr>"

datatype error = KeyError "string list" | ValueError | TypeError | IndexError

subsection \<open>Month keys\<close>

text \<open>
  \<open>df['Date'].dt.to_period('M').astype(str)\<close> renders the month of a timestamp as
  \<open>YYYY-MM\<close>. Strings are byte strings (UTF-8), whose lexicographic order is Python's
  order on the strings they encode.
\<close>

definition digit :: "nat \<Rightarrow> char" where
  "digit n = ''0123456789'' ! (n mod 10)"

definition period_str :: "datetime \<Rightarrow> string" where
  "period_str d =
     [digit (year d div 1000), digit (year d div 100), digit (year d div 10), digit (year d)]
     @ ''-'' @ [digit (month d div 10), digit (month d)]"

definition month_of :: "txn \<Rightarrow> string" where
  "month_of r = period_str (Date r)"

subsection \<open>Grouping and aligned subtraction\<close>

text \<open>
  \<open>groupby(key)[col].sum()\<close>: one entry per distinct key, keys in ascending order
  (pandas sorts group keys by default), each with the sum of its rows' values.
\<close>

definition groupby_sum :: "('k::linorder \<times> int) list \<Rightarrow> ('k \<times> int) list" where
  "groupby_sum kvs =
     map (\<lambda>k. (k, sum_list (map snd (filter (\<lambda>kv. fst kv = k) kvs))))
         (sort (remdups (map fst kvs)))"

text \<open>
  \<open>a - b\<close> on two Series aligns them on the union of their labels; a label missing on
  either side gives NaN (\<open>None\<close>), since no \<open>fill_value\<close> is passed.
\<close>

definition series_sub :: "('k::linorder \<times> int) list \<Rightarrow> ('k \<times> int) list \<Rightarrow> ('k \<times> int option) list" where
  "series_sub a b =
     map (\<lambda>k. (k, case (map_of a k, map_of b k) of
                     (Some x, Some y) \<Rightarrow> Some (x - y)
                   | _ \<Rightarrow> None))
         (sort (remdups (map fst a @ map fst b)))"

section \<open>Aggregation\<close>

definition monthly_income :: "frame \<Rightarrow> (string \<times> int) list" where
  "monthly_income df =
     groupby_sum (map (\<lambda>r. (month_of r, Transaction_Amount r))
                      (rows (select (\<lambda>r. Transaction_Amount r > 0) df)))"

definition monthly_expense :: "frame \<Rightarrow> (string \<times> int) list" where
  "monthly_expense df =
     map (\<lambda>(k, v). (k, \<bar>v\<bar>))
         (groupby_sum (map (\<lambda>r. (month_of r, Transaction_Amount r))
                           (rows (select (\<lambda>r. Transaction_Amount r < 0) df))))"

text \<open>\<open>make_net_income_chart\<close>: the table \<open>net\<close> handed to the chart.\<close>

definition make_net_income_chart :: "frame \<Rightarrow> (string \<times> int option) list" where
  "make_net_income_chart df = series_sub (monthly_income df) (monthly_expense df)"

text \<open>
  \<open>make_bar_trend\<close>: the two monthly series are joined on \<open>Month\<close> with
  \<open>how='outer'\<close> (keys in ascending order) and the missing side is filled with 0; the
  join is then melted into one row per month and category, all \<open>Income\<close> rows first.
  (The function's first statement groups by month and type into a table it never reads.)
\<close>

definition trend_df :: "frame \<Rightarrow> (string \<times> int \<times> int) list" where
  "trend_df df =
     (let inc = monthly_income df; exp = monthly_expense df
      in map (\<lambda>k. (k, case map_of inc k of Some v \<Rightarrow> v | None \<Rightarrow> 0,
                         case map_of exp k of Some v \<Rightarrow> v | None \<Rightarrow> 0))
             (sort (remdups (map fst inc @ map fst exp))))"

definition make_bar_trend :: "frame \<Rightarrow> (string \<times> string \<times> int) list" where
  "make_bar_trend df =
     map (\<lambda>(k, i, e). (k, ''Income'', i)) (trend_df df)
     @ map (\<lambda>(k, i, e). (k, ''Expense'', e)) (trend_df df)"


subsection \<open>KPI metrics\<close>

record kpi =
  deposit :: int
  withdrawal :: int
  balance :: int
  count :: int
  cashback :: int
  interest :: int

text \<open>\<open>.iloc[0]\<close> raises IndexError on an empty Series.\<close>

definition iloc0 :: "'a list \<Rightarrow> error + 'a" where
  "iloc0 xs = (case xs of [] \<Rightarrow> Inl IndexError | x # _ \<Rightarrow> Inr x)"

text \<open>
  \<open>sort_values(col, ascending=False)\<close> is called without \<open>kind\<close>, so pandas sorts with
  numpy's default quicksort. That routine is not part of this program, and pandas
  promises of it only that the result holds the same rows in descending order of the
  column. The functions that sort therefore take the sorting routine as their first
  argument, and \<open>sorts_descending\<close> is what may be assumed of it.
\<close>

definition sorts_descending :: "('a \<Rightarrow> 'k::linorder) \<Rightarrow> ('a list \<Rightarrow> 'a list) \<Rightarrow> bool" where
  "sorts_descending key srt \<longleftrightarrow>
     (\<forall>xs. mset (srt xs) = mset xs \<and> sorted_wrt (\<lambda>a b. key b \<le> key a) (srt xs))"


text \<open>
  Two routines that sort in descending order: pandas' scheme around a stable kernel
  (reverse, sort ascending, reverse back), which keeps ties in row order, and a plain
  reversed ascending sort, which reverses them.
\<close>

definition stable_desc :: "('a \<Rightarrow> 'k::linorder) \<Rightarrow> 'a list \<Rightarrow> 'a list" where
  "stable_desc key xs = rev (sort_key key (rev xs))"

definition reversing_desc :: "('a \<Rightarrow> 'k::linorder) \<Rightarrow> 'a list \<Rightarrow> 'a list" where
  "reversing_desc key xs = rev (sort_key key xs)"

definition date_key :: "txn \<Rightarrow> nat \<times> nat \<times> nat \<times> nat \<times> nat \<times> nat" where
  "date_key r = stamp_key (Date r)"

definition get_kpi_metrics :: "(txn list \<Rightarrow> txn list) \<Rightarrow> frame \<Rightarrow> error + kpi" where
  "get_kpi_metrics sort_values df =
     (if empty df then
        Inr \<lparr>deposit = 0, withdrawal = 0, balance = 0, count = 0, cashback = 0, interest = 0\<rparr>
      else
        let dep = sum_list (map Transaction_Amount (rows (select (\<lambda>r. Transaction_Amount r > 0) df)));
            withd = \<bar>sum_list (map Transaction_Amount (rows (select (\<lambda>r. Transaction_Amount r < 0) df)))\<bar>;
            cnt = int (length (rows df));
            cb = sum_list (map Transaction_Amount
                   (rows (select (\<lambda>r. Transaction_Type r = Some ''Cashback'') df)));
            intr = sum_list (map Transaction_Amount
                     (rows (select (\<lambda>r. Transaction_Type r = Some ''Interest Deposit'') df)))
        in case (if \<not> empty df then iloc0 (map Balance (sort_values (rows df))) else Inr 0) of
             Inl e \<Rightarrow> Inl e
           | Inr bal \<Rightarrow>
               Inr \<lparr>deposit = dep, withdrawal = withd, balance = bal, count = cnt,
                    cashback = cb, interest = intr\<rparr>)"

subsection \<open>Hourly histogram\<close>

text \<open>
  \<open>value_counts()\<close>: the number of occurrences of each value that occurs. The chart
  places each bar by its hour, so the table is modelled as a map from hour to count.
\<close>

definition value_counts :: "'a list \<Rightarrow> ('a \<rightharpoonup> nat)" where
  "value_counts xs = (\<lambda>v. if v \<in> set xs then Some (count_list xs v) else None)"

text \<open>
  \<open>make_heatmap\<close> assigns \<open>df['Hour']\<close> on the frame it was passed before counting, so it
  returns that frame as the call leaves it, together with the table \<open>hourly\<close>.
\<close>

definition make_heatmap :: "frame \<Rightarrow> frame \<times> (nat \<rightharpoonup> nat)" where
  "make_heatmap df =
     (let df' = df\<lparr>Hour := Some (map (\<lambda>r. hour (Date r)) (rows df))\<rparr>
      in (df', value_counts (case Hour df' of Some hs \<Rightarrow> hs | None \<Rightarrow> [])))"

subsection \<open>Top remarks and totals by type\<close>

text \<open>\<open>groupby\<close> on a text column leaves out the rows whose key is NaN.\<close>

definition keyed :: "(txn \<Rightarrow> string option) \<Rightarrow> txn list \<Rightarrow> (string \<times> int) list" where
  "keyed col rs = List.map_filter (\<lambda>r. map_option (\<lambda>k. (k, Transaction_Amount r)) (col r)) rs"

definition make_remarks_chart ::
  "((string \<times> int) list \<Rightarrow> (string \<times> int) list) \<Rightarrow> frame \<Rightarrow> bool \<Rightarrow> (string \<times> int) list" where
  "make_remarks_chart sort_values df is_negative =
     (let subset = (if is_negative then select (\<lambda>r. Transaction_Amount r < 0) df
                    else select (\<lambda>r. Transaction_Amount r > 0) df)
      in if empty subset then []
         else let grouped = map (\<lambda>(k, v). (k, \<bar>v\<bar>)) (groupby_sum (keyed Remarks (rows subset)))
              in take 15 (sort_values grouped))"


section \<open>Filtering and the render pass\<close>

text \<open>
  \<open>main\<close> narrows the canonical table to the selected years, then to the selected
  months. With no year selected it warns and returns before any chart (\<open>None\<close>). With no
  month selected it warns and selects with \<open>isin([])\<close>.
\<close>

definition year_filter :: "nat list \<Rightarrow> frame \<Rightarrow> frame" where
  "year_filter selected_years raw_df = select (\<lambda>r. year (Date r) \<in> set selected_years) raw_df"

definition month_filter :: "nat list \<Rightarrow> frame \<Rightarrow> frame" where
  "month_filter selected_months_int year_filtered_df =
     (if selected_months_int = [] then select (\<lambda>r. month (Date r) \<in> set []) year_filtered_df
      else select (\<lambda>r. month (Date r) \<in> set selected_months_int) year_filtered_df)"

definition filtered :: "nat list \<Rightarrow> nat list \<Rightarrow> frame \<Rightarrow> frame option" where
  "filtered selected_years selected_months_int raw_df =
     (if selected_years = [] then None
      else Some (month_filter selected_months_int (year_filter selected_years raw_df)))"

text \<open>
  The three tables of a run are three objects: selecting with a mask builds a new frame.
  The render pass calls the aggregation functions on \<open>filtered_df\<close> in the order of
  \<open>main\<close>; an assignment made by a callee lands in that object.
\<close>

record session =
  raw_df :: frame
  year_filtered_df :: frame
  filtered_df :: frame




definition start :: "nat list \<Rightarrow> nat list \<Rightarrow> frame \<Rightarrow> session option" where
  "start selected_years selected_months_int raw =
     map_option (\<lambda>f. \<lparr>raw_df = raw, year_filtered_df = year_filter selected_years raw,
                       filtered_df = f\<rparr>)
                (filtered selected_years selected_months_int raw)"

section \<open>Normalisation\<close>

text \<open>
  \<open>load_and_clean_data\<close> works on the table as \<open>read_excel\<close> returns it: named columns
  of cells, in sheet order. A cell is blank (NaN), a number, a text, or one of the date
  and time values the function derives. Header and label texts of the bank's export are
  Korean; they are written here as their UTF-8 bytes.
\<close>

datatype cell = NaN | Num int | Str string | Stamp datetime | DateOf nat nat nat | TimeOf nat nat nat

type_synonym table = "(string \<times> cell list) list"

text \<open>\<open>read_excel\<close> makes the headers of a sheet distinct. A column is read by its
  header; where a statement concerns the cells of a column, headers are taken to be
  distinct after renaming as well.\<close>

text \<open>The eight vendor headers, in the order of the renaming dictionary (lines 37-41).\<close>

definition hdr_date :: string where
  "hdr_date =
     [CHR 0xEA, CHR 0xB1, CHR 0xB0, CHR 0xEB, CHR 0x9E, CHR 0x98, CHR 0x20, CHR 0xEC,
      CHR 0x9D, CHR 0xBC, CHR 0xEC, CHR 0x8B, CHR 0x9C]"

definition hdr_remarks :: string where
  "hdr_remarks =
     [CHR 0xEC, CHR 0xA0, CHR 0x81, CHR 0xEC, CHR 0x9A, CHR 0x94]"

definition hdr_type :: string where
  "hdr_type =
     [CHR 0xEA, CHR 0xB1, CHR 0xB0, CHR 0xEB, CHR 0x9E, CHR 0x98, CHR 0x20, CHR 0xEC,
      CHR 0x9C, CHR 0xA0, CHR 0xED, CHR 0x98, CHR 0x95]"

definition hdr_bank :: string where
  "hdr_bank =
     [CHR 0xEA, CHR 0xB1, CHR 0xB0, CHR 0xEB, CHR 0x9E, CHR 0x98, CHR 0x20, CHR 0xEA,
      CHR 0xB8, CHR 0xB0, CHR 0xEA, CHR 0xB4, CHR 0x80]"

definition hdr_account :: string where
  "hdr_account =
     [CHR 0xEA, CHR 0xB3, CHR 0x84, CHR 0xEC, CHR 0xA2, CHR 0x8C, CHR 0xEB, CHR 0xB2,
      CHR 0x88, CHR 0xED, CHR 0x98, CHR 0xB8]"

definition hdr_amount :: string where
  "hdr_amount =
     [CHR 0xEA, CHR 0xB1, CHR 0xB0, CHR 0xEB, CHR 0x9E, CHR 0x98, CHR 0x20, CHR 0xEA,
      CHR 0xB8, CHR 0x88, CHR 0xEC, CHR 0x95, CHR 0xA1]"

definition hdr_balance :: string where
  "hdr_balance =
     [CHR 0xEA, CHR 0xB1, CHR 0xB0, CHR 0xEB, CHR 0x9E, CHR 0x98, CHR 0x20, CHR 0xED,
      CHR 0x9B, CHR 0x84, CHR 0x20, CHR 0xEC, CHR 0x9E, CHR 0x94, CHR 0xEC, CHR 0x95,
      CHR 0xA1]"

definition hdr_memo :: string where
  "hdr_memo =
     [CHR 0xEB, CHR 0xA9, CHR 0x94, CHR 0xEB, CHR 0xAA, CHR 0xA8]"

definition ty_check_card :: string where
  "ty_check_card =
     [CHR 0xEC, CHR 0xB2, CHR 0xB4, CHR 0xED, CHR 0x81, CHR 0xAC, CHR 0xEC, CHR 0xB9,
      CHR 0xB4, CHR 0xEB, CHR 0x93, CHR 0x9C, CHR 0xEA, CHR 0xB2, CHR 0xB0, CHR 0xEC,
      CHR 0xA0, CHR 0x9C]"

definition ty_deposit :: string where
  "ty_deposit =
     [CHR 0xEC, CHR 0x9E, CHR 0x85, CHR 0xEA, CHR 0xB8, CHR 0x88]"

definition ty_withdrawal :: string where
  "ty_withdrawal =
     [CHR 0xEC, CHR 0xB6, CHR 0x9C, CHR 0xEA, CHR 0xB8, CHR 0x88]"

definition ty_cashback :: string where
  "ty_cashback =
     [CHR 0xED, CHR 0x94, CHR 0x84, CHR 0xEB, CHR 0xA1, CHR 0x9C, CHR 0xEB, CHR 0xAA,
      CHR 0xA8, CHR 0xEC, CHR 0x85, CHR 0x98, CHR 0xEC, CHR 0x9E, CHR 0x85, CHR 0xEA,
      CHR 0xB8, CHR 0x88]"

definition ty_open_banking :: string where
  "ty_open_banking =
     [CHR 0xEC, CHR 0x98, CHR 0xA4, CHR 0xED, CHR 0x94, CHR 0x88, CHR 0xEB, CHR 0xB1,
      CHR 0x85, CHR 0xED, CHR 0x82, CHR 0xB9]"

definition ty_interest :: string where
  "ty_interest =
     [CHR 0xEC, CHR 0x9D, CHR 0xB4, CHR 0xEC, CHR 0x9E, CHR 0x90, CHR 0xEC, CHR 0x9E,
      CHR 0x85, CHR 0xEA, CHR 0xB8, CHR 0x88]"

definition ty_atm_withdrawal :: string where
  "ty_atm_withdrawal =
     [CHR 0x41, CHR 0x54, CHR 0x4D, CHR 0xEC, CHR 0xB6, CHR 0x9C, CHR 0xEA, CHR 0xB8,
      CHR 0x88]"

definition ty_kb_bank :: string where
  "ty_kb_bank =
     [CHR 0x4B, CHR 0x42, CHR 0xEA, CHR 0xB5, CHR 0xAD, CHR 0xEB, CHR 0xAF, CHR 0xBC,
      CHR 0xEC, CHR 0x9D, CHR 0x80, CHR 0xED, CHR 0x96, CHR 0x89]"

definition ty_bc_card :: string where
  "ty_bc_card =
     [CHR 0x42, CHR 0x43, CHR 0xEC, CHR 0xB9, CHR 0xB4, CHR 0xEB, CHR 0x93, CHR 0x9C]"

definition header_names :: "(string \<times> string) list" where
  "header_names =
     [(hdr_date, ''Date''), (hdr_remarks, ''Remarks''), (hdr_type, ''Transaction_Type''),
      (hdr_bank, ''Bank_Name''), (hdr_account, ''Account_Number''),
      (hdr_amount, ''Transaction_Amount''), (hdr_balance, ''Balance''), (hdr_memo, ''Memo'')]"

definition type_names :: "(string \<times> string) list" where
  "type_names =
     [(ty_check_card, ''Check Card''), (ty_deposit, ''Deposit''), (ty_withdrawal, ''Withdrawal''),
      (ty_cashback, ''Cashback''), (ty_open_banking, ''Open Banking''),
      (ty_interest, ''Interest Deposit''), (ty_atm_withdrawal, ''ATM Withdrawal''),
      (ty_kb_bank, ''KB Bank''), (ty_bc_card, ''ATM Deposit'')]"

subsection \<open>The pandas operations used\<close>

definition names :: "table \<Rightarrow> string list" where
  "names df = map fst df"

text \<open>\<open>df.rename(columns=...)\<close>: a header in the dictionary is replaced, any other is
  kept; a dictionary key that is no header is ignored.\<close>

definition rename_columns :: "(string \<times> string) list \<Rightarrow> table \<Rightarrow> table" where
  "rename_columns mapping df =
     map (\<lambda>(n, c). (case map_of mapping n of Some n' \<Rightarrow> n' | None \<Rightarrow> n, c)) df"

text \<open>\<open>df.drop(columns=...)\<close> is called without \<open>errors='ignore'\<close>: it raises KeyError,
  naming the labels it did not find, if any label is no column.\<close>

definition drop_columns :: "string list \<Rightarrow> table \<Rightarrow> error + table" where
  "drop_columns labels df =
     (let missing = filter (\<lambda>l. l \<notin> set (names df)) labels
      in if missing \<noteq> [] then Inl (KeyError missing)
         else Inr (filter (\<lambda>(n, c). n \<notin> set labels) df))"

text \<open>\<open>df[name]\<close> raises KeyError when there is no such column.\<close>

definition getitem :: "string \<Rightarrow> table \<Rightarrow> error + cell list" where
  "getitem name df = (case map_of df name of None \<Rightarrow> Inl (KeyError [name]) | Some c \<Rightarrow> Inr c)"

text \<open>\<open>df[name] = values\<close> replaces the column of that name, or appends a new one.\<close>

definition setitem :: "string \<Rightarrow> cell list \<Rightarrow> table \<Rightarrow> table" where
  "setitem name c df =
     (if name \<in> set (names df) then map (\<lambda>(n, old). (n, if n = name then c else old)) df
      else df @ [(name, c)])"

definition fillna :: "int \<Rightarrow> cell list \<Rightarrow> cell list" where
  "fillna v col = map (\<lambda>c. if c = NaN then Num v else c) col"

text \<open>
  Reading a text as a number (\<open>astype(int)\<close>) and as a timestamp in the format
  \<open>%Y.%m.%d %H:%M:%S\<close> (\<open>to_datetime\<close>) is done by pandas; the two readers are
  parameters of the model. \<open>None\<close> is the reader's ValueError.
\<close>

record readers =
  int_of_text :: "string \<Rightarrow> int option"
  strptime :: "string \<Rightarrow> datetime option"

text \<open>A conversion of a column raises at the first cell it cannot convert.\<close>

fun convert :: "(cell \<Rightarrow> error + cell) \<Rightarrow> cell list \<Rightarrow> error + cell list" where
  "convert f [] = Inr []"
| "convert f (c # cs) =
     (case f c of
        Inl e \<Rightarrow> Inl e
      | Inr c' \<Rightarrow> (case convert f cs of Inl e \<Rightarrow> Inl e | Inr cs' \<Rightarrow> Inr (c' # cs')))"

fun int_cell :: "readers \<Rightarrow> cell \<Rightarrow> error + cell" where
  "int_cell lib (Num n) = Inr (Num n)"
| "int_cell lib (Str s) = (case int_of_text lib s of None \<Rightarrow> Inl ValueError | Some n \<Rightarrow> Inr (Num n))"
| "int_cell lib NaN = Inl ValueError"
| "int_cell lib c = Inl TypeError"

definition astype_int :: "readers \<Rightarrow> cell list \<Rightarrow> error + cell list" where
  "astype_int lib col = convert (int_cell lib) col"

fun datetime_cell :: "readers \<Rightarrow> cell \<Rightarrow> error + cell" where
  "datetime_cell lib NaN = Inr NaN"
| "datetime_cell lib (Stamp d) = Inr (Stamp d)"
| "datetime_cell lib (Str s) = (case strptime lib s of None \<Rightarrow> Inl ValueError | Some d \<Rightarrow> Inr (Stamp d))"
| "datetime_cell lib (Num n) = Inl ValueError"
| "datetime_cell lib c = Inl TypeError"

definition to_datetime :: "readers \<Rightarrow> cell list \<Rightarrow> error + cell list" where
  "to_datetime lib col = convert (datetime_cell lib) col"

text \<open>\<open>Series.replace(dict)\<close>: a cell equal to a key becomes that key's value; every
  other cell, a blank one too, stays as it is.\<close>

fun replace_cell :: "(string \<times> string) list \<Rightarrow> cell \<Rightarrow> cell" where
  "replace_cell mapping (Str s) = (case map_of mapping s of Some t \<Rightarrow> Str t | None \<Rightarrow> Str s)"
| "replace_cell mapping c = c"

definition replace_values :: "(string \<times> string) list \<Rightarrow> cell list \<Rightarrow> cell list" where
  "replace_values mapping col = map (replace_cell mapping) col"

text \<open>The \<open>.dt\<close> accessors on a timestamp column; a blank timestamp (NaT) stays blank,
  and its month text is \<open>NaT\<close>.\<close>

fun dt_time :: "cell \<Rightarrow> cell" where
  "dt_time (Stamp d) = TimeOf (hour d) (minute d) (second d)"
| "dt_time c = NaN"

fun dt_date :: "cell \<Rightarrow> cell" where
  "dt_date (Stamp d) = DateOf (year d) (month d) (day d)"
| "dt_date c = NaN"

fun dt_month_str :: "cell \<Rightarrow> cell" where
  "dt_month_str (Stamp d) = Str (period_str d)"
| "dt_month_str c = Str ''NaT''"

subsection \<open>load_and_clean_data\<close>

text \<open>An exception raised by a statement ends the call: the statements after it do not run.\<close>

definition and_then :: "error + 'a \<Rightarrow> ('a \<Rightarrow> error + 'b) \<Rightarrow> error + 'b" where
  "and_then r f = (case r of Inl e \<Rightarrow> Inl e | Inr x \<Rightarrow> f x)"

text \<open>Lines 37-44, "Rename and Standardize": rename, drop, and make the account number
  an integer with 0 for a blank.\<close>

definition standardize :: "readers \<Rightarrow> table \<Rightarrow> error + table" where
  "standardize lib sheet =
     and_then (drop_columns [''Unnamed: 0'', ''Memo''] (rename_columns header_names sheet)) (\<lambda>df.
     and_then (getitem ''Account_Number'' df) (\<lambda>acc.
     and_then (astype_int lib (fillna 0 acc)) (\<lambda>acc.
     Inr (setitem ''Account_Number'' acc df))))"

text \<open>Lines 47-51, "Translate".\<close>

definition translate :: "table \<Rightarrow> error + table" where
  "translate df =
     and_then (getitem ''Transaction_Type'' df) (\<lambda>ty.
     Inr (setitem ''Transaction_Type'' (replace_values type_names ty) df))"

text \<open>Lines 54-57, "Datetime Processing": each statement reads \<open>df['Date']\<close> anew.\<close>

definition parse_dates :: "readers \<Rightarrow> table \<Rightarrow> error + table" where
  "parse_dates lib df =
     and_then (getitem ''Date'' df) (\<lambda>d.
     and_then (to_datetime lib d) (\<lambda>d.
     Inr (setitem ''Date'' d df)))"

definition derive :: "string \<Rightarrow> (cell \<Rightarrow> cell) \<Rightarrow> table \<Rightarrow> error + table" where
  "derive name f df = and_then (getitem ''Date'' df) (\<lambda>d. Inr (setitem name (map f d) df))"

text \<open>
  The argument is the sheet as read with \<open>skiprows=8\<close>, or \<open>None\<close> when no file was
  uploaded, for which the function returns \<open>None\<close>.
\<close>

definition load_and_clean_data :: "readers \<Rightarrow> table option \<Rightarrow> error + table option" where
  "load_and_clean_data lib uploaded_file =
     (case uploaded_file of
        None \<Rightarrow> Inr None
      | Some sheet \<Rightarrow>
          and_then (standardize lib sheet) (\<lambda>df.
          and_then (translate df) (\<lambda>df.
          and_then (parse_dates lib df) (\<lambda>df.
          and_then (derive ''Time'' dt_time df) (\<lambda>df.
          and_then (derive ''DateOnly'' dt_date df) (\<lambda>df.
          and_then (derive ''Month'' dt_month_str df) (\<lambda>df.
          Inr (Some df))))))))"

section \<open>Notions of the specification and example data\<close>


text \<open>The total of a series as pandas' \<open>sum()\<close> takes it: NaN entries are skipped.\<close>

definition nansum :: "('k \<times> int option) list \<Rightarrow> int" where
  "nansum s = sum_list (map (\<lambda>(k, v). case v of Some x \<Rightarrow> x | None \<Rightarrow> 0) s)"


definition mk_txn :: "nat \<Rightarrow> nat \<Rightarrow> nat \<Rightarrow> nat \<Rightarrow> string \<Rightarrow> string \<Rightarrow> int \<Rightarrow> int \<Rightarrow> txn" where
  "mk_txn y m d h rem ty amt bal =
     \<lparr>Date = \<lparr>year = y, month = m, day = d, hour = h, minute = 0, second = 0\<rparr>,
      Remarks = Some rem, Transaction_Type = Some ty, Bank_Name = None,
      Account_Number = 0, Transaction_Amount = amt, Balance = bal\<rparr>"

definition two_months :: frame where
  "two_months =
     \<lparr>rows = [mk_txn 2024 1 15 9 ''salary'' ''Deposit'' 100000 100000,
              mk_txn 2024 2 3 18 ''rent'' ''Withdrawal'' (- 40000) 60000],
      Hour = None\<rparr>"


definition zero_row :: txn where
  "zero_row = mk_txn 2024 1 20 10 ''notice'' ''Deposit'' 0 100000"





text \<open>
  Readers for the examples: decimal digits, and exactly \<open>YYYY.MM.DD HH:MM:SS\<close> with
  every field in range.
\<close>

fun number :: "nat \<Rightarrow> string \<Rightarrow> nat option" where
  "number acc [] = Some acc"
| "number acc (c # cs) =
     (if CHR ''0'' \<le> c \<and> c \<le> CHR ''9'' then number (acc * 10 + (of_char c - 48)) cs else None)"

definition strict_strptime :: "string \<Rightarrow> datetime option" where
  "strict_strptime s =
     (if length s = 19 \<and> s ! 4 = CHR ''.'' \<and> s ! 7 = CHR ''.'' \<and> s ! 10 = CHR '' ''
         \<and> s ! 13 = CHR '':'' \<and> s ! 16 = CHR '':''
      then Option.bind (number 0 (take 4 s)) (\<lambda>y.
           Option.bind (number 0 (take 2 (drop 5 s))) (\<lambda>m.
           Option.bind (number 0 (take 2 (drop 8 s))) (\<lambda>d.
           Option.bind (number 0 (take 2 (drop 11 s))) (\<lambda>h.
           Option.bind (number 0 (take 2 (drop 14 s))) (\<lambda>mi.
           Option.bind (number 0 (take 2 (drop 17 s))) (\<lambda>sec.
             if 1 \<le> m \<and> m \<le> 12 \<and> 1 \<le> d \<and> d \<le> 31 \<and> h < 24 \<and> mi < 60 \<and> sec < 60
             then Some \<lparr>year = y, month = m, day = d, hour = h, minute = mi, second = sec\<rparr>
             else None))))))
      else None)"

definition plain_readers :: readers where
  "plain_readers =
     \<lparr>int_of_text = (\<lambda>s. if s = [] then None else map_option int (number 0 s)),
      strptime = strict_strptime\<rparr>"

text \<open>A sheet of two transactions with every column of the export.\<close>

definition full_sheet :: table where
  "full_sheet =
     [(''Unnamed: 0'', [NaN, NaN]),
      (hdr_date, [Str ''2024.01.15 09:00:00'', Str ''2024.02.03 18:30:00'']),
      (hdr_remarks, [Str ''salary'', Str ''rent'']),
      (hdr_type, [Str ty_deposit, Str ''Transfer'']),
      (hdr_bank, [Str ''Toss'', NaN]),
      (hdr_account, [Num 1002003004, NaN]),
      (hdr_amount, [Num 100000, Num (- 40000)]),
      (hdr_balance, [Num 100000, Num 60000]),
      (hdr_memo, [NaN, NaN])]"

definition without :: "string list \<Rightarrow> table \<Rightarrow> table" where
  "without ns df = filter (\<lambda>(n, c). n \<notin> set ns) df"

definition blank_type_sheet :: table where
  "blank_type_sheet = setitem hdr_type [Str ty_deposit, NaN] full_sheet"

section \<open>Sorting routines\<close>

lemma sorted_wrt_rev_sort_key: "sorted_wrt (\<lambda>a b. key b \<le> key a) (rev (sort_key key xs))"
proof -
  have "sorted (map key (sort_key key xs))" by (rule sorted_sort_key)
  then have "sorted_wrt (\<lambda>a b. key a \<le> key b) (sort_key key xs)" by (simp only: sorted_map)
  then show ?thesis by (simp only: sorted_wrt_rev)
qed

lemma sorts_descending_stable_desc: "sorts_descending key (stable_desc key)"
  unfolding sorts_descending_def stable_desc_def
  by (simp add: sorted_wrt_rev_sort_key)

lemma sorts_descending_reversing_desc: "sorts_descending key (reversing_desc key)"
  unfolding sorts_descending_def reversing_desc_def
  by (simp add: sorted_wrt_rev_sort_key)



lemma sorted_mset: "sorts_descending key srt \<Longrightarrow> mset (srt xs) = mset xs"
  by (simp add: sorts_descending_def)

lemma sorted_set: "sorts_descending key srt \<Longrightarrow> set (srt xs) = set xs"
  by (rule mset_eq_setD) (rule sorted_mset)

lemma sorted_length: "sorts_descending key srt \<Longrightarrow> length (srt xs) = length xs"
  by (rule mset_eq_length) (rule sorted_mset)

lemma sorted_nonempty:
  assumes "sorts_descending key srt" and "xs \<noteq> []"
  shows "srt xs \<noteq> []"
  using sorted_length [OF assms(1), of xs] assms(2) by auto


section \<open>KPI metrics\<close>

lemma rows_select [simp]: "rows (select p df) = filter p (rows df)"
  by (simp add: select_def)

text \<open>
  With a sorting routine that returns its rows, \<open>get_kpi_metrics\<close> never raises, and
  its six values are these.
\<close>

lemma kpi_value:
  assumes "sorts_descending date_key srt"
  shows "get_kpi_metrics srt df =
     Inr \<lparr>deposit = sum_list (map Transaction_Amount (filter (\<lambda>r. Transaction_Amount r > 0) (rows df))),
          withdrawal = \<bar>sum_list (map Transaction_Amount (filter (\<lambda>r. Transaction_Amount r < 0) (rows df)))\<bar>,
          balance = (case srt (rows df) of [] \<Rightarrow> 0 | x # _ \<Rightarrow> Balance x),
          count = int (length (rows df)),
          cashback = sum_list (map Transaction_Amount
                       (filter (\<lambda>r. Transaction_Type r = Some ''Cashback'') (rows df))),
          interest = sum_list (map Transaction_Amount
                       (filter (\<lambda>r. Transaction_Type r = Some ''Interest Deposit'') (rows df)))\<rparr>"
proof (cases "rows df = []")
  case True
  moreover have "srt [] = []"
    using sorted_set [OF assms, of "[]"] by simp
  ultimately show ?thesis
    by (simp add: get_kpi_metrics_def empty_def)
next
  case False
  then obtain x rest where "srt (rows df) = x # rest"
    using sorted_nonempty [OF assms False] by (cases "srt (rows df)") auto
  with False show ?thesis
    by (simp add: get_kpi_metrics_def empty_def iloc0_def Let_def)
qed




text \<open>
  C10. A row whose amount is exactly 0 adds one to the transaction count and nothing to
  total deposits or total withdrawals, is in neither the withdrawals nor the deposits
  subset of the remarks ranking, and leaves both rankings as they are without it.
\<close>

theorem zero_amount_row:
  assumes "Transaction_Amount r = 0" and "sorts_descending date_key srt"
  shows "\<exists>m m0. get_kpi_metrics srt \<lparr>rows = xs @ r # ys, Hour = h\<rparr> = Inr m
           \<and> get_kpi_metrics srt \<lparr>rows = xs @ ys, Hour = h\<rparr> = Inr m0
           \<and> count m = count m0 + 1 \<and> deposit m = deposit m0 \<and> withdrawal m = withdrawal m0
           \<and> r \<notin> set (rows (select (\<lambda>r. Transaction_Amount r < 0) \<lparr>rows = xs @ r # ys, Hour = h\<rparr>))
           \<and> r \<notin> set (rows (select (\<lambda>r. Transaction_Amount r > 0) \<lparr>rows = xs @ r # ys, Hour = h\<rparr>))
           \<and> make_remarks_chart srt' \<lparr>rows = xs @ r # ys, Hour = h\<rparr> neg
               = make_remarks_chart srt' \<lparr>rows = xs @ ys, Hour = h\<rparr> neg"
proof -
  have "make_remarks_chart srt' \<lparr>rows = xs @ r # ys, Hour = h\<rparr> neg
        = make_remarks_chart srt' \<lparr>rows = xs @ ys, Hour = h\<rparr> neg"
    using assms(1) by (simp add: make_remarks_chart_def empty_def)
  then show ?thesis
    using assms(1) by (simp add: kpi_value [OF assms(2)])
qed

theorem zero_amount_row_witness:
  "map_sum id (\<lambda>m. (count m, deposit m, withdrawal m))
     (get_kpi_metrics (stable_desc date_key) \<lparr>rows = rows two_months @ [zero_row], Hour = None\<rparr>)
   = Inr (3, 100000, 40000)"
proof -
  have z: "Transaction_Amount zero_row = 0" by (simp add: zero_row_def mk_txn_def)
  have b: "map_sum id (\<lambda>m. (count m, deposit m, withdrawal m))
             (get_kpi_metrics (stable_desc date_key) \<lparr>rows = rows two_months @ [], Hour = None\<rparr>)
           = Inr (2, 100000, 40000)"
    by code_simp
  from zero_amount_row [OF z sorts_descending_stable_desc, of "rows two_months" "[]" None]
  obtain m m0 where
    "get_kpi_metrics (stable_desc date_key) \<lparr>rows = rows two_months @ [zero_row], Hour = None\<rparr> = Inr m"
    "get_kpi_metrics (stable_desc date_key) \<lparr>rows = rows two_months @ [], Hour = None\<rparr> = Inr m0"
    "count m = count m0 + 1" "deposit m = deposit m0" "withdrawal m = withdrawal m0"
    by blast
  with b show ?thesis by simp
qed

section \<open>Top remarks\<close>












section \<open>Net income\<close>

text \<open>
  C1. On the two-transaction example (January: +100000, February: -40000) the net income
  series is NaN in both months: each month has only one side, and the subtraction fills
  nothing in. The claim expects 100000 and -40000.
\<close>

theorem net_income_two_months:
  "make_net_income_chart two_months = [(''2024-01'', None), (''2024-02'', None)]"
  by code_simp

lemma map_of_groupby_sum:
  "map_of (groupby_sum kvs) k
   = (if k \<in> fst ` set kvs then Some (sum_list (map snd (filter (\<lambda>kv. fst kv = k) kvs))) else None)"
  by (simp add: groupby_sum_def map_of_map_restrict)

text \<open>
  In general, the net income series has a number for a month only when the month has
  both a row with a positive and a row with a negative amount; any other month of the
  filtered set is in the series with NaN.
\<close>

lemma net_income_entry:
  assumes "(k, v) \<in> set (make_net_income_chart df)"
  shows "v = (if (\<exists>r \<in> set (rows df). month_of r = k \<and> Transaction_Amount r > 0)
                \<and> (\<exists>r \<in> set (rows df). month_of r = k \<and> Transaction_Amount r < 0)
              then Some (sum_list (map Transaction_Amount
                           (filter (\<lambda>r. month_of r = k \<and> Transaction_Amount r > 0) (rows df)))
                         - \<bar>sum_list (map Transaction_Amount
                           (filter (\<lambda>r. month_of r = k \<and> Transaction_Amount r < 0) (rows df)))\<bar>)
              else None)"
proof -
  have i: "map_of (monthly_income df) k
      = (if \<exists>r \<in> set (rows df). month_of r = k \<and> Transaction_Amount r > 0
         then Some (sum_list (map Transaction_Amount
                (filter (\<lambda>r. month_of r = k \<and> Transaction_Amount r > 0) (rows df))))
         else None)"
    unfolding monthly_income_def map_of_groupby_sum
    by (auto simp: filter_map comp_def image_iff conj_commute)
  have e: "map_of (monthly_expense df) k
      = (if \<exists>r \<in> set (rows df). month_of r = k \<and> Transaction_Amount r < 0
         then Some \<bar>sum_list (map Transaction_Amount
                (filter (\<lambda>r. month_of r = k \<and> Transaction_Amount r < 0) (rows df)))\<bar>
         else None)"
    unfolding monthly_expense_def map_of_map map_of_groupby_sum
    by (auto simp: filter_map comp_def image_iff conj_commute)
  from assms have "v = (case (map_of (monthly_income df) k, map_of (monthly_expense df) k) of
                          (Some x, Some y) \<Rightarrow> Some (x - y) | _ \<Rightarrow> None)"
    by (auto simp: make_net_income_chart_def series_sub_def)
  then show ?thesis unfolding i e by (simp split: if_splits)
qed

text \<open>
  C7. On the same example total deposits minus total withdrawals is 60000, while the net
  income series has no number in it, so its total is 0.
\<close>

theorem kpi_and_net_total_two_months:
  "map_sum id (\<lambda>m. deposit m - withdrawal m) (get_kpi_metrics (stable_desc date_key) two_months) = Inr 60000
   \<and> map snd (make_net_income_chart two_months) = [None, None]
   \<and> nansum (make_net_income_chart two_months) = 0"
  by code_simp

lemma group_sums_total:
  assumes "finite K" and "fst ` set kvs \<subseteq> K"
  shows "(\<Sum>k\<in>K. sum_list (map snd (filter (\<lambda>kv. fst kv = k) kvs))) = sum_list (map snd kvs)"
  using assms(2)
proof (induction kvs)
  case Nil
  show ?case by simp
next
  case (Cons kv kvs)
  have "(\<Sum>k\<in>K. sum_list (map snd (filter (\<lambda>x. fst x = k) (kv # kvs))))
        = (\<Sum>k\<in>K. (if k = fst kv then snd kv else 0)
                    + sum_list (map snd (filter (\<lambda>x. fst x = k) kvs)))"
    by (intro sum.cong refl) auto
  also have "\<dots> = (\<Sum>k\<in>K. if k = fst kv then snd kv else 0)
                  + (\<Sum>k\<in>K. sum_list (map snd (filter (\<lambda>x. fst x = k) kvs)))"
    by (rule sum.distrib)
  also have "(\<Sum>k\<in>K. if k = fst kv then snd kv else 0) = snd kv"
    using Cons.prems assms(1) by simp
  also have "(\<Sum>k\<in>K. sum_list (map snd (filter (\<lambda>x. fst x = k) kvs))) = sum_list (map snd kvs)"
    using Cons by simp
  finally show ?case by simp
qed

lemma group_sum_or_zero:
  "(case map_of (groupby_sum kvs) k of Some v \<Rightarrow> v | None \<Rightarrow> 0)
   = sum_list (map snd (filter (\<lambda>kv. fst kv = k) kvs))"
proof (cases "k \<in> fst ` set kvs")
  case True
  then show ?thesis by (simp add: groupby_sum_def map_of_map_restrict)
next
  case False
  then have "filter (\<lambda>kv. fst kv = k) kvs = []" by (auto simp: filter_empty_conv)
  with False show ?thesis by (simp add: groupby_sum_def map_of_map_restrict)
qed

lemma sum_list_negative: "(\<And>x. x \<in> set xs \<Longrightarrow> x < (0::int)) \<Longrightarrow> sum_list xs \<le> 0"
  by (induction xs) (auto simp: add_nonpos_nonpos less_imp_le)

lemma trend_df_row:
  "trend_df df =
     map (\<lambda>k. (k,
            sum_list (map Transaction_Amount
              (filter (\<lambda>r. month_of r = k) (filter (\<lambda>r. Transaction_Amount r > 0) (rows df)))),
            - sum_list (map Transaction_Amount
              (filter (\<lambda>r. month_of r = k) (filter (\<lambda>r. Transaction_Amount r < 0) (rows df))))))
         (sort (remdups (map fst (monthly_income df) @ map fst (monthly_expense df))))"
proof -
  have inc: "(case map_of (monthly_income df) k of Some v \<Rightarrow> v | None \<Rightarrow> 0)
      = sum_list (map Transaction_Amount
          (filter (\<lambda>r. month_of r = k) (filter (\<lambda>r. Transaction_Amount r > 0) (rows df))))" for k
    unfolding monthly_income_def group_sum_or_zero
    by (simp add: filter_map comp_def)
  have neg: "sum_list (map Transaction_Amount
          (filter (\<lambda>r. month_of r = k) (filter (\<lambda>r. Transaction_Amount r < 0) (rows df)))) \<le> 0" for k
    by (rule sum_list_negative) auto
  have "(case map_of (monthly_expense df) k of Some v \<Rightarrow> v | None \<Rightarrow> 0)
      = \<bar>case map_of (groupby_sum (map (\<lambda>r. (month_of r, Transaction_Amount r))
                           (rows (select (\<lambda>r. Transaction_Amount r < 0) df)))) k of
           Some v \<Rightarrow> v | None \<Rightarrow> 0\<bar>" for k
    unfolding monthly_expense_def map_of_map by (simp split: option.splits)
  then have exp: "(case map_of (monthly_expense df) k of Some v \<Rightarrow> v | None \<Rightarrow> 0)
      = - sum_list (map Transaction_Amount
          (filter (\<lambda>r. month_of r = k) (filter (\<lambda>r. Transaction_Amount r < 0) (rows df))))" for k
    unfolding group_sum_or_zero using neg [of k]
    by (simp add: filter_map comp_def)
  show ?thesis unfolding trend_df_def Let_def by (simp only: inc exp)
qed

lemma month_sums_total:
  assumes "set (map month_of rs) \<subseteq> set ks" and "distinct ks"
  shows "sum_list (map (\<lambda>k. sum_list (map Transaction_Amount (filter (\<lambda>r. month_of r = k) rs))) ks)
         = sum_list (map Transaction_Amount rs)"
proof -
  let ?kvs = "map (\<lambda>r. (month_of r, Transaction_Amount r)) rs"
  have "sum_list (map (\<lambda>k. sum_list (map snd (filter (\<lambda>kv. fst kv = k) ?kvs))) ks)
        = (\<Sum>k\<in>set ks. sum_list (map snd (filter (\<lambda>kv. fst kv = k) ?kvs)))"
    using assms(2) by (simp add: sum_list_distinct_conv_sum_set)
  also have "\<dots> = sum_list (map snd ?kvs)"
    using assms(1) by (intro group_sums_total) (auto simp: image_iff)
  finally show ?thesis by (simp add: filter_map comp_def)
qed

text \<open>
  The identity of total deposits minus total withdrawals with the monthly totals does
  hold for the series of \<open>make_bar_trend\<close>, where a missing side counts as 0.
\<close>

lemma kpi_matches_trend_df:
  assumes "get_kpi_metrics srt df = Inr m"
  shows "deposit m - withdrawal m = sum_list (map (\<lambda>(k, i, e). i - e) (trend_df df))"
proof -
  let ?P = "filter (\<lambda>r. Transaction_Amount r > 0) (rows df)"
  let ?N = "filter (\<lambda>r. Transaction_Amount r < 0) (rows df)"
  let ?ks = "sort (remdups (map fst (monthly_income df) @ map fst (monthly_expense df)))"
  have d: "deposit m = sum_list (map Transaction_Amount ?P)"
    and w: "withdrawal m = \<bar>sum_list (map Transaction_Amount ?N)\<bar>"
    using assms
    by (auto simp: get_kpi_metrics_def empty_def Let_def split: if_splits sum.splits)
  have neg: "sum_list (map Transaction_Amount ?N) \<le> 0"
    by (rule sum_list_negative) auto
  have ki: "set (map fst (monthly_income df)) = set (map month_of ?P)"
    by (simp add: monthly_income_def groupby_sum_def comp_def)
  have ke: "set (map fst (monthly_expense df)) = set (map month_of ?N)"
    by (simp add: monthly_expense_def groupby_sum_def comp_def case_prod_unfold)
  have dk: "distinct ?ks" by simp
  have sp: "set (map month_of ?P) \<subseteq> set ?ks" and sn: "set (map month_of ?N) \<subseteq> set ?ks"
    using ki ke by auto
  have "sum_list (map (\<lambda>(k, i, e). i - e) (trend_df df))
        = sum_list (map (\<lambda>k. sum_list (map Transaction_Amount (filter (\<lambda>r. month_of r = k) ?P))
                             + sum_list (map Transaction_Amount (filter (\<lambda>r. month_of r = k) ?N))) ?ks)"
    unfolding trend_df_row by (simp add: comp_def)
  also have "\<dots> = sum_list (map (\<lambda>k. sum_list (map Transaction_Amount (filter (\<lambda>r. month_of r = k) ?P))) ?ks)
                 + sum_list (map (\<lambda>k. sum_list (map Transaction_Amount (filter (\<lambda>r. month_of r = k) ?N))) ?ks)"
    by (rule sum_list_addf)
  also have "\<dots> = sum_list (map Transaction_Amount ?P) + sum_list (map Transaction_Amount ?N)"
    by (simp only: month_sums_total [OF sp dk] month_sums_total [OF sn dk])
  finally show ?thesis using d w neg by simp
qed

section \<open>Empty selections\<close>

text \<open>
  C5. With no month selected the filtered set has no rows, whatever the year-filtered
  table holds, and on it the six KPI metrics are 0 and the monthly series, the net income
  series, the hourly histogram and both remarks rankings are empty; nothing raises,
  whatever the sorting routine.
\<close>

theorem no_month_selected:
  "rows (month_filter [] ydf) = []
   \<and> get_kpi_metrics srt (month_filter [] ydf)
       = Inr \<lparr>deposit = 0, withdrawal = 0, balance = 0, count = 0, cashback = 0, interest = 0\<rparr>
   \<and> trend_df (month_filter [] ydf) = []
   \<and> make_bar_trend (month_filter [] ydf) = []
   \<and> make_net_income_chart (month_filter [] ydf) = []
   \<and> snd (make_heatmap (month_filter [] ydf)) = Map.empty
   \<and> make_remarks_chart srt' (month_filter [] ydf) True = []
   \<and> make_remarks_chart srt' (month_filter [] ydf) False = []"
proof -
  have e: "rows (month_filter [] ydf) = []"
    by (simp add: month_filter_def)
  have inc: "monthly_income (month_filter [] ydf) = []"
    by (simp add: monthly_income_def e groupby_sum_def)
  have exp: "monthly_expense (month_filter [] ydf) = []"
    by (simp add: monthly_expense_def e groupby_sum_def)
  have t: "trend_df (month_filter [] ydf) = []"
    by (simp add: trend_df_def inc exp)
  have k: "get_kpi_metrics srt (month_filter [] ydf)
       = Inr \<lparr>deposit = 0, withdrawal = 0, balance = 0, count = 0, cashback = 0, interest = 0\<rparr>"
    by (simp add: get_kpi_metrics_def empty_def e)
  have b: "make_bar_trend (month_filter [] ydf) = []"
    by (simp add: make_bar_trend_def t)
  have n: "make_net_income_chart (month_filter [] ydf) = []"
    by (simp add: make_net_income_chart_def series_sub_def inc exp)
  have hh: "snd (make_heatmap (month_filter [] ydf)) = Map.empty"
    by (simp add: make_heatmap_def Let_def value_counts_def e)
  have r: "make_remarks_chart srt' (month_filter [] ydf) neg = []" for neg
    by (simp add: make_remarks_chart_def empty_def e)
  from e k t b n hh r show ?thesis by simp
qed

section \<open>What a render pass changes\<close>



section \<open>Normalisation: which columns must be there\<close>

lemma and_then_simps [simp]:
  "and_then (Inl e) f = Inl e"
  "and_then (Inr x) f = f x"
  by (simp_all add: and_then_def)

lemma and_then_Inr:
  "and_then r f = Inr y \<longleftrightarrow> (\<exists>x. r = Inr x \<and> f x = Inr y)"
  by (cases r) simp_all

lemma map_of_None_names: "map_of df n = None \<longleftrightarrow> n \<notin> set (names df)"
  by (simp add: names_def map_of_eq_None_iff)

lemma getitem_Inr: "getitem n df = Inr c \<longleftrightarrow> map_of df n = Some c"
  by (simp add: getitem_def split: option.splits)

lemma getitem_missing: "n \<notin> set (names df) \<Longrightarrow> getitem n df = Inl (KeyError [n])"
  by (simp add: getitem_def map_of_None_names [symmetric])

lemma getitem_names: "getitem n df = Inr c \<Longrightarrow> n \<in> set (names df)"
  using getitem_missing [of n df] by auto

lemma names_replace: "names (map (\<lambda>(n', old). (n', g n' old)) df) = names df"
  by (simp add: names_def comp_def case_prod_unfold)

lemma names_setitem: "set (names (setitem n c df)) = insert n (set (names df))"
proof (cases "n \<in> set (names df)")
  case True
  then show ?thesis by (auto simp: setitem_def names_replace)
next
  case False
  then show ?thesis by (simp add: setitem_def) (simp add: names_def)
qed

lemma map_of_replace:
  "map_of (map (\<lambda>(n', old). (n', if n' = n then c else old)) df) k
   = (if k = n then map_option (\<lambda>old. c) (map_of df n) else map_of df k)"
  by (induction df) auto

lemma map_of_setitem: "map_of (setitem n c df) k = (if k = n then Some c else map_of df k)"
proof (cases "n \<in> set (names df)")
  case True
  then obtain old where "map_of df n = Some old"
    using map_of_None_names [of df n] by (cases "map_of df n") auto
  with True show ?thesis by (simp add: setitem_def map_of_replace)
next
  case False
  then have "map_of df n = None" by (simp add: map_of_None_names)
  with False show ?thesis by (auto simp: setitem_def map_add_def split: option.splits)
qed

lemma map_of_without: "P k \<Longrightarrow> map_of (filter (\<lambda>(n, c). P n) df) k = map_of df k"
  by (induction df) auto

lemma drop_columns_Inr:
  "drop_columns ls df = Inr df' \<longleftrightarrow> set ls \<subseteq> set (names df) \<and> df' = filter (\<lambda>(n, c). n \<notin> set ls) df"
  by (auto simp: drop_columns_def Let_def filter_empty_conv)

lemma drop_columns_Inl:
  "\<not> set ls \<subseteq> set (names df) \<Longrightarrow>
   drop_columns ls df = Inl (KeyError (filter (\<lambda>l. l \<notin> set (names df)) ls))"
  by (auto simp: drop_columns_def Let_def filter_empty_conv)

lemma names_without: "set (names (filter (\<lambda>(n, c). n \<notin> set ls) df)) = set (names df) - set ls"
  by (auto simp: names_def image_iff)

lemma standardize_Inr:
  assumes "standardize lib sheet = Inr df"
  shows "{''Unnamed: 0'', ''Memo'', ''Account_Number''} \<subseteq> set (names (rename_columns header_names sheet))"
    and "set (names df) = set (names (rename_columns header_names sheet)) - {''Unnamed: 0'', ''Memo''}"
    and "k \<notin> {''Unnamed: 0'', ''Memo'', ''Account_Number''} \<Longrightarrow>
         map_of df k = map_of (rename_columns header_names sheet) k"
proof -
  let ?r = "rename_columns header_names sheet"
  from assms obtain d acc acc' where d: "drop_columns [''Unnamed: 0'', ''Memo''] ?r = Inr d"
    and g: "getitem ''Account_Number'' d = Inr acc"
    and df: "df = setitem ''Account_Number'' acc' d"
    unfolding standardize_def and_then_Inr by auto
  from d have sub: "{''Unnamed: 0'', ''Memo''} \<subseteq> set (names ?r)"
    and dd: "d = filter (\<lambda>(n, c). n \<notin> set [''Unnamed: 0'', ''Memo'']) ?r"
    by (simp_all add: drop_columns_Inr)
  have nd: "set (names d) = set (names ?r) - {''Unnamed: 0'', ''Memo''}"
    unfolding dd names_without by simp
  from getitem_names [OF g] have a: "''Account_Number'' \<in> set (names d)" .
  with nd sub show "{''Unnamed: 0'', ''Memo'', ''Account_Number''} \<subseteq> set (names ?r)" by auto
  from a nd show "set (names df) = set (names ?r) - {''Unnamed: 0'', ''Memo''}"
    unfolding df names_setitem by auto
  show "map_of df k = map_of ?r k" if "k \<notin> {''Unnamed: 0'', ''Memo'', ''Account_Number''}"
    using that unfolding df dd by (simp add: map_of_setitem map_of_without)
qed

lemma translate_Inr:
  assumes "translate df = Inr df'"
  shows "\<exists>col. map_of df ''Transaction_Type'' = Some col
           \<and> df' = setitem ''Transaction_Type'' (replace_values type_names col) df"
    and "set (names df') = set (names df)" and "''Transaction_Type'' \<in> set (names df)"
proof -
  from assms obtain ty where g: "getitem ''Transaction_Type'' df = Inr ty"
    and df': "df' = setitem ''Transaction_Type'' (replace_values type_names ty) df"
    unfolding translate_def and_then_Inr by auto
  from g df' show "\<exists>col. map_of df ''Transaction_Type'' = Some col
           \<and> df' = setitem ''Transaction_Type'' (replace_values type_names col) df"
    by (simp add: getitem_Inr)
  from getitem_names [OF g] show "''Transaction_Type'' \<in> set (names df)" .
  then show "set (names df') = set (names df)" unfolding df' names_setitem by auto
qed

lemma parse_dates_Inr:
  assumes "parse_dates lib df = Inr df'"
  shows "''Date'' \<in> set (names df)" and "k \<noteq> ''Date'' \<Longrightarrow> map_of df' k = map_of df k"
proof -
  from assms obtain d d' where g: "getitem ''Date'' df = Inr d" and df': "df' = setitem ''Date'' d' df"
    unfolding parse_dates_def and_then_Inr by auto
  from getitem_names [OF g] show "''Date'' \<in> set (names df)" .
  show "map_of df' k = map_of df k" if "k \<noteq> ''Date''"
    using that unfolding df' by (simp add: map_of_setitem)
qed

lemma derive_Inr:
  assumes "derive name f df = Inr df'" and "k \<noteq> name"
  shows "map_of df' k = map_of df k"
proof -
  from assms(1) obtain d where "df' = setitem name (map f d) df"
    unfolding derive_def and_then_Inr by auto
  with assms(2) show ?thesis by (simp add: map_of_setitem)
qed

lemma load_Inr:
  assumes "load_and_clean_data lib (Some sheet) = Inr (Some df)"
  shows "\<exists>d1 d2 d3 d4 d5. standardize lib sheet = Inr d1 \<and> translate d1 = Inr d2
           \<and> parse_dates lib d2 = Inr d3 \<and> derive ''Time'' dt_time d3 = Inr d4
           \<and> derive ''DateOnly'' dt_date d4 = Inr d5 \<and> derive ''Month'' dt_month_str d5 = Inr df"
  using assms unfolding load_and_clean_data_def option.case and_then_Inr by auto

lemma load_never_None: "load_and_clean_data lib (Some sheet) \<noteq> Inr None"
  unfolding load_and_clean_data_def option.case
  by (auto simp: and_then_def split: sum.splits)

lemma load_needs:
  assumes "load_and_clean_data lib (Some sheet) = Inr r"
  shows "{''Unnamed: 0'', ''Memo'', ''Account_Number'', ''Transaction_Type'', ''Date''}
           \<subseteq> set (names (rename_columns header_names sheet))"
proof -
  from assms load_never_None [of lib sheet] obtain df where "r = Some df" by (cases r) auto
  with assms load_Inr [of lib sheet df] obtain d1 d2 d3 where
    s: "standardize lib sheet = Inr d1" and t: "translate d1 = Inr d2"
    and p: "parse_dates lib d2 = Inr d3" by auto
  from standardize_Inr(1,2) [OF s] translate_Inr(2,3) [OF t] parse_dates_Inr(1) [OF p]
  show ?thesis by auto
qed

lemma header_names_inj:
  assumes "(a, c) \<in> set header_names" and "(b, c) \<in> set header_names"
  shows "a = b"
proof -
  have "distinct (map snd header_names)" by (simp add: header_names_def)
  then have "inj_on snd (set header_names)" by (simp add: distinct_map)
  from inj_onD [OF this, of "(a, c)" "(b, c)"] assms show ?thesis by simp
qed

lemma names_rename:
  "names (rename_columns mapping df)
   = map (\<lambda>n. case map_of mapping n of Some n' \<Rightarrow> n' | None \<Rightarrow> n) (names df)"
  by (simp add: names_def rename_columns_def comp_def case_prod_unfold)

lemma renamed_missing:
  assumes "(v, c) \<in> set header_names" and "v \<notin> set (names sheet)" and "c \<notin> set (names sheet)"
  shows "c \<notin> set (names (rename_columns header_names sheet))"
proof
  assume "c \<in> set (names (rename_columns header_names sheet))"
  then obtain n where n: "n \<in> set (names sheet)"
    and c: "c = (case map_of header_names n of Some n' \<Rightarrow> n' | None \<Rightarrow> n)"
    unfolding names_rename by auto
  show False
  proof (cases "map_of header_names n")
    case None
    with c n assms(3) show False by simp
  next
    case (Some n')
    with c have "(n, c) \<in> set header_names" by (simp add: map_of_SomeD)
    from header_names_inj [OF this assms(1)] n assms(2) show False by simp
  qed
qed

text \<open>
  C2. If the sheet lacks the vendor header of the timestamp, the transaction type, the
  account number or the memo column (and has no column of the canonical name either),
  the call raises and returns no table; for the memo and the account number column the
  error is a KeyError. (The other four vendor headers are not looked for.)
\<close>

theorem missing_source_column:
  assumes "(v, c) \<in> set header_names"
      and "c \<in> {''Date'', ''Transaction_Type'', ''Account_Number'', ''Memo''}"
      and "v \<notin> set (names sheet)" and "c \<notin> set (names sheet)"
  shows "\<exists>e. load_and_clean_data lib (Some sheet) = Inl e
           \<and> (c \<in> {''Account_Number'', ''Memo''} \<longrightarrow> (\<exists>ks. e = KeyError ks))"
proof -
  let ?r = "rename_columns header_names sheet"
  have miss: "c \<notin> set (names ?r)" using assms(1,3,4) by (rule renamed_missing)
  have fails: "\<exists>e. load_and_clean_data lib (Some sheet) = Inl e"
  proof (cases "load_and_clean_data lib (Some sheet)")
    case (Inl e)
    then show ?thesis by simp
  next
    case (Inr r)
    from load_needs [OF this] miss assms(2) show ?thesis by auto
  qed
  have key: "\<exists>ks. load_and_clean_data lib (Some sheet) = Inl (KeyError ks)"
    if c: "c \<in> {''Account_Number'', ''Memo''}"
  proof (cases "set [''Unnamed: 0'', ''Memo''] \<subseteq> set (names ?r)")
    case False
    from drop_columns_Inl [OF this] show ?thesis
      by (simp add: load_and_clean_data_def standardize_def)
  next
    case True
    with miss c have ca: "c = ''Account_Number''" by auto
    from True obtain d where d: "drop_columns [''Unnamed: 0'', ''Memo''] ?r = Inr d"
      and dd: "d = filter (\<lambda>(n, c). n \<notin> set [''Unnamed: 0'', ''Memo'']) ?r"
      by (simp add: drop_columns_Inr)
    have "''Account_Number'' \<notin> set (names d)"
      using miss ca unfolding dd names_without by simp
    from getitem_missing [OF this] d show ?thesis
      by (simp add: load_and_clean_data_def standardize_def)
  qed
  from fails key show ?thesis by auto
qed

theorem missing_source_column_witness:
  "load_and_clean_data plain_readers (Some (without [hdr_account] full_sheet))
   = Inl (KeyError [''Account_Number''])"
proof -
  have v: "load_and_clean_data plain_readers (Some (without [hdr_account] full_sheet))
           = Inl (KeyError [''Account_Number''])"
    by code_simp
  have h: "(hdr_account, ''Account_Number'') \<in> set header_names"
    by (simp add: header_names_def)
  have n1: "hdr_account \<notin> set (names (without [hdr_account] full_sheet))"
    by code_simp
  have n2: "''Account_Number'' \<notin> set (names (without [hdr_account] full_sheet))"
    by code_simp
  from missing_source_column [OF h _ n1 n2, of plain_readers] v show ?thesis by simp
qed

text \<open>
  A sheet without the remarks, bank, amount and balance columns is normalised without
  any error, into a table that has none of \<open>Remarks\<close>, \<open>Bank_Name\<close>,
  \<open>Transaction_Amount\<close> and \<open>Balance\<close>.
\<close>

theorem missing_source_column_counterexample:
  "map_sum id (map_option names)
     (load_and_clean_data plain_readers
        (Some (without [hdr_remarks, hdr_bank, hdr_amount, hdr_balance] full_sheet)))
   = Inr (Some [''Date'', ''Transaction_Type'', ''Account_Number'', ''Time'', ''DateOnly'', ''Month''])"
  by code_simp

text \<open>
  C3. The pruning step raises KeyError exactly when the index column \<open>Unnamed: 0\<close> or
  the memo column is not in the renamed table, and then the whole call ends with that
  KeyError, which names the labels not found.
\<close>

theorem pruning_needs_both_columns:
  "(isl (drop_columns [''Unnamed: 0'', ''Memo''] (rename_columns header_names sheet))
      \<longleftrightarrow> ''Unnamed: 0'' \<notin> set (names (rename_columns header_names sheet))
          \<or> ''Memo'' \<notin> set (names (rename_columns header_names sheet)))
   \<and> (isl (drop_columns [''Unnamed: 0'', ''Memo''] (rename_columns header_names sheet))
      \<longrightarrow> load_and_clean_data lib (Some sheet)
           = Inl (KeyError (filter (\<lambda>l. l \<notin> set (names (rename_columns header_names sheet)))
                                   [''Unnamed: 0'', ''Memo''])))"
proof (cases "set [''Unnamed: 0'', ''Memo''] \<subseteq> set (names (rename_columns header_names sheet))")
  case True
  then have "\<exists>d. drop_columns [''Unnamed: 0'', ''Memo''] (rename_columns header_names sheet) = Inr d"
    by (simp add: drop_columns_Inr)
  with True show ?thesis by auto
next
  case False
  from drop_columns_Inl [OF False]
  have d: "drop_columns [''Unnamed: 0'', ''Memo''] (rename_columns header_names sheet)
        = Inl (KeyError (filter (\<lambda>l. l \<notin> set (names (rename_columns header_names sheet)))
                                [''Unnamed: 0'', ''Memo'']))" .
  have "load_and_clean_data lib (Some sheet)
        = Inl (KeyError (filter (\<lambda>l. l \<notin> set (names (rename_columns header_names sheet)))
                                [''Unnamed: 0'', ''Memo'']))"
    by (simp add: load_and_clean_data_def standardize_def d)
  with False d show ?thesis by auto
qed

theorem pruning_needs_both_columns_witness:
  "load_and_clean_data plain_readers (Some (without [hdr_memo] full_sheet)) = Inl (KeyError [''Memo''])"
proof -
  have i: "isl (drop_columns [''Unnamed: 0'', ''Memo'']
                  (rename_columns header_names (without [hdr_memo] full_sheet)))"
    by code_simp
  have f: "filter (\<lambda>l. l \<notin> set (names (rename_columns header_names (without [hdr_memo] full_sheet))))
             [''Unnamed: 0'', ''Memo''] = [''Memo'']"
    by code_simp
  from pruning_needs_both_columns [of "without [hdr_memo] full_sheet" plain_readers] i
  have "load_and_clean_data plain_readers (Some (without [hdr_memo] full_sheet))
        = Inl (KeyError (filter (\<lambda>l. l \<notin> set (names (rename_columns header_names
                                       (without [hdr_memo] full_sheet))))
                                [''Unnamed: 0'', ''Memo'']))"
    by blast
  then show ?thesis by (simp only: f)
qed

text \<open>A sheet that is complete but for the index column: pruning raises, and so does
  the call.\<close>

theorem pruning_absent_column_counterexample:
  "drop_columns [''Unnamed: 0'', ''Memo'']
     (rename_columns header_names (without [''Unnamed: 0''] full_sheet))
   = Inl (KeyError [''Unnamed: 0''])
   \<and> load_and_clean_data plain_readers (Some (without [''Unnamed: 0''] full_sheet))
     = Inl (KeyError [''Unnamed: 0''])"
  by code_simp

section \<open>Normalisation: the transaction type\<close>

lemma replace_cell_NaN: "replace_cell mapping c = NaN \<longleftrightarrow> c = NaN"
  by (cases c) (simp_all split: option.splits)

text \<open>
  C8. When the call returns a table (for a sheet whose headers are distinct after
  renaming), its \<open>Transaction_Type\<close> column is the column of that name of the renamed
  sheet with every cell passed through the lookup table: a label in the table becomes its
  canonical value, any other text is kept verbatim, and a cell is blank after the call
  exactly when it was blank before.
\<close>

theorem transaction_type_after_load:
  assumes "load_and_clean_data lib (Some sheet) = Inr (Some df)"
      and "distinct (names (rename_columns header_names sheet))"
  shows "\<exists>col. map_of (rename_columns header_names sheet) ''Transaction_Type'' = Some col
           \<and> getitem ''Transaction_Type'' df = Inr (map (replace_cell type_names) col)
           \<and> (\<forall>s. replace_cell type_names (Str s)
                    = Str (case map_of type_names s of Some t \<Rightarrow> t | None \<Rightarrow> s))
           \<and> (\<forall>c. replace_cell type_names c = NaN \<longleftrightarrow> c = NaN)"
proof -
  from load_Inr [OF assms(1)] obtain d1 d2 d3 d4 d5 where
    s: "standardize lib sheet = Inr d1" and t: "translate d1 = Inr d2"
    and p: "parse_dates lib d2 = Inr d3" and e1: "derive ''Time'' dt_time d3 = Inr d4"
    and e2: "derive ''DateOnly'' dt_date d4 = Inr d5"
    and e3: "derive ''Month'' dt_month_str d5 = Inr df" by blast
  from translate_Inr(1) [OF t] obtain col where c1: "map_of d1 ''Transaction_Type'' = Some col"
    and d2: "d2 = setitem ''Transaction_Type'' (replace_values type_names col) d1" by blast
  have "map_of (rename_columns header_names sheet) ''Transaction_Type'' = Some col"
    using standardize_Inr(3) [OF s, of "''Transaction_Type''"] c1 by simp
  moreover have "map_of d2 ''Transaction_Type'' = Some (map (replace_cell type_names) col)"
    unfolding d2 by (simp add: map_of_setitem replace_values_def)
  then have "map_of df ''Transaction_Type'' = Some (map (replace_cell type_names) col)"
    using parse_dates_Inr(2) [OF p, of "''Transaction_Type''"]
      derive_Inr [OF e1, of "''Transaction_Type''"] derive_Inr [OF e2, of "''Transaction_Type''"]
      derive_Inr [OF e3, of "''Transaction_Type''"]
    by simp
  moreover have "\<forall>s. replace_cell type_names (Str s)
                    = Str (case map_of type_names s of Some t \<Rightarrow> t | None \<Rightarrow> s)"
    by (simp split: option.splits)
  ultimately show ?thesis by (simp add: getitem_Inr replace_cell_NaN)
qed

theorem transaction_type_after_load_witness:
  "map_sum id (map_option (getitem ''Transaction_Type''))
     (load_and_clean_data plain_readers (Some full_sheet))
   = Inr (Some (Inr [Str ''Deposit'', Str ''Transfer'']))"
proof -
  obtain df where l: "load_and_clean_data plain_readers (Some full_sheet) = Inr (Some df)"
  proof -
    have "map_sum id (map_option (\<lambda>df. ())) (load_and_clean_data plain_readers (Some full_sheet))
          = Inr (Some ())"
      by code_simp
    then show ?thesis using that
      by (cases "load_and_clean_data plain_readers (Some full_sheet)") auto
  qed
  have r: "map_of (rename_columns header_names full_sheet) ''Transaction_Type''
           = Some [Str ty_deposit, Str ''Transfer'']"
    by code_simp
  have m: "map (replace_cell type_names) [Str ty_deposit, Str ''Transfer'']
           = [Str ''Deposit'', Str ''Transfer'']"
    by code_simp
  have d: "distinct (names (rename_columns header_names full_sheet))"
    by code_simp
  from transaction_type_after_load [OF l d] r m
  have "getitem ''Transaction_Type'' df = Inr [Str ''Deposit'', Str ''Transfer'']" by auto
  with l show ?thesis by simp
qed

text \<open>A sheet whose second row has no label: its transaction type is blank after the
  call.\<close>

theorem transaction_type_blank_counterexample:
  "map_sum id (map_option (getitem ''Transaction_Type''))
     (load_and_clean_data plain_readers (Some blank_type_sheet))
   = Inr (Some (Inr [Str ''Deposit'', NaN]))"
  by code_simp

end
